theory Spec2Isabelle
  imports Complex_Main "HOL-Library.Sublist" "HOL-Library.Word"
begin

section \<open>JavaScript values\<close>

text \<open>
  The values the SDK handles are parsed JSON: what \<^verbatim>\<open>response.json()\<close> resolves to, the
  \<^verbatim>\<open>details\<close> payload of an error and the \<^verbatim>\<open>data\<close> arm of a response. A number
  in such a value is modelled at the integers from \<open>-2^53\<close> to \<open>2^53 - 1\<close> (a signed
  word of 54 bits), where the number and its decimal digits determine each other; an
  object is the list of its own properties, each key once; a string is a list of code
  units below 256. An optional property (\<^verbatim>\<open>statusCode?: number\<close>) is an \<open>option\<close>,
  \<open>None\<close> standing for \<^verbatim>\<open>undefined\<close>.
\<close>

datatype jsval =
    JNull
  | JBool bool
  | JNum "54 word"
  | JStr string
  | JArr "jsval list"
  | JObj "(string \<times> jsval) list"

text \<open>Truthiness, as \<^verbatim>\<open>||\<close> and \<^verbatim>\<open>&&\<close> test it.\<close>

fun truthy :: "jsval \<Rightarrow> bool" where
  "truthy JNull = False"
| "truthy (JBool b) = b"
| "truthy (JNum n) = (n \<noteq> 0)"
| "truthy (JStr s) = (s \<noteq> [])"
| "truthy (JArr xs) = True"
| "truthy (JObj fs) = True"

text \<open>
  The decimal rendering of an integer, digit by digit. It is what JavaScript prints for
  an integer from \<open>-2^53\<close> to \<open>2^53\<close>, so for every number of a \<open>jsval\<close> and for
  the status of a \<^verbatim>\<open>Response\<close> (an unsigned short).
\<close>

function decimal :: "nat \<Rightarrow> string" where
  "decimal n =
     (if n < 10 then [''0123456789'' ! n]
      else decimal (n div 10) @ [''0123456789'' ! (n mod 10)])"
  by pat_completeness auto
termination
  by (relation "measure id") auto

declare decimal.simps [simp del]

definition number_to_string :: "int \<Rightarrow> string" where
  "number_to_string i = (if i < 0 then ''-'' @ decimal (nat (- i)) else decimal (nat i))"

fun join :: "string \<Rightarrow> string list \<Rightarrow> string" where
  "join sep [] = []"
| "join sep [x] = x"
| "join sep (x # y # ys) = x @ sep @ join sep (y # ys)"

text \<open>
  ToString: applied by a template literal and by the \<^verbatim>\<open>Error\<close> constructor to its
  message. An array joins its elements with commas, a null element printing as the empty
  string. A plain object prints as \<^verbatim>\<open>[object Object]\<close>, unless it has a property
  \<^verbatim>\<open>toString\<close> of its own: a parsed value is never callable, the inherited
  \<^verbatim>\<open>valueOf\<close> gives back the object, and the conversion raises a \<^verbatim>\<open>TypeError\<close>
  (\<open>None\<close>).
\<close>

fun to_string :: "jsval \<Rightarrow> string option"
  and to_strings :: "jsval list \<Rightarrow> string list option" where
  "to_string JNull = Some ''null''"
| "to_string (JBool b) = Some (if b then ''true'' else ''false'')"
| "to_string (JNum n) = Some (number_to_string (sint n))"
| "to_string (JStr s) = Some s"
| "to_string (JArr xs) = map_option (join '','') (to_strings xs)"
| "to_string (JObj fs) =
     (if map_of fs ''toString'' = None then Some ''[object Object]'' else None)"
| "to_strings [] = Some []"
| "to_strings (x # xs) =
     (case (if x = JNull then Some [] else to_string x) of
        None \<Rightarrow> None
      | Some s \<Rightarrow> (case to_strings xs of None \<Rightarrow> None | Some ss \<Rightarrow> Some (s # ss)))"

section \<open>Errors\<close>

text \<open>
  \<^verbatim>\<open>KonnectError\<close> is the plain error object of the response envelope;
  \<^verbatim>\<open>KonnectSDKError\<close> is the exception class, which adds the \<^verbatim>\<open>name\<close> its
  constructor (or a subclass constructor) sets. The \<^verbatim>\<open>code\<close> field is declared a string
  but stores whatever the response body holds under \<^verbatim>\<open>code\<close>, so it is a \<open>jsval\<close>.
\<close>

record KonnectError =
  message :: string
  statusCode :: "int option"
  code :: "jsval option"
  details :: "jsval option"

record KonnectSDKError = KonnectError +
  name :: string

definition new_KonnectSDKError ::
  "string \<Rightarrow> int option \<Rightarrow> jsval option \<Rightarrow> jsval option \<Rightarrow> KonnectSDKError" where
  "new_KonnectSDKError m s c d =
     \<lparr>message = m, statusCode = s, code = c, details = d, name = ''KonnectSDKError''\<rparr>"

definition toJSON :: "KonnectSDKError \<Rightarrow> KonnectError" where
  "toJSON this =
     \<lparr>message = message this, statusCode = statusCode this, code = code this,
      details = details this\<rparr>"

definition new_PaymentNotFoundError :: "string \<Rightarrow> KonnectSDKError" where
  "new_PaymentNotFoundError paymentId =
     (new_KonnectSDKError (''Payment with ID '' @ paymentId @ '' not found'') (Some 404)
        (Some (JStr ''PAYMENT_NOT_FOUND'')) None)
     \<lparr>name := ''PaymentNotFoundError''\<rparr>"

definition new_AuthenticationError :: "KonnectSDKError" where
  "new_AuthenticationError =
     (new_KonnectSDKError ''Invalid or missing API key'' (Some 401)
        (Some (JStr ''INVALID_AUTH'')) None)
     \<lparr>name := ''AuthenticationError''\<rparr>"

definition new_ValidationError :: "string \<Rightarrow> jsval option \<Rightarrow> KonnectSDKError" where
  "new_ValidationError m d =
     (new_KonnectSDKError m (Some 400) (Some (JStr ''VALIDATION_ERROR'')) d)
     \<lparr>name := ''ValidationError''\<rparr>"

text \<open>
  What a \<^verbatim>\<open>throw\<close> or a rejected promise carries: an instance of
  \<^verbatim>\<open>KonnectSDKError\<close> (or of a subclass), any other \<^verbatim>\<open>Error\<close> with its message
  (the \<^verbatim>\<open>TypeError\<close> of a failed \<^verbatim>\<open>fetch\<close>, the \<^verbatim>\<open>SyntaxError\<close> of a body that is
  not JSON, the abort error), or a value that is not an \<^verbatim>\<open>Error\<close> at all.
\<close>

datatype thrown =
    SDKError KonnectSDKError
  | JSError string
  | NonError jsval

section \<open>The error classifier\<close>

text \<open>
  Of a \<^verbatim>\<open>Response\<close> the code reads \<^verbatim>\<open>ok\<close>, \<^verbatim>\<open>status\<close>, \<^verbatim>\<open>statusText\<close> and
  \<^verbatim>\<open>json()\<close>, which rejects (\<open>Inl\<close>) when the body is not JSON and resolves (\<open>Inr\<close>) to
  the parsed value otherwise.
\<close>

record Response =
  ok :: bool
  status :: int
  statusText :: string
  json :: "thrown + jsval"

text \<open>
  Reading a property \<^verbatim>\<open>data.k\<close>. The parsed body is cast to a record without a check:
  on \<^verbatim>\<open>null\<close> the read raises a \<^verbatim>\<open>TypeError\<close> (with the message Node prints), on an
  object it gives the property or \<^verbatim>\<open>undefined\<close>, on any other value \<^verbatim>\<open>undefined\<close> (none
  of the names read here is a built-in property).
\<close>

definition null_read :: "string \<Rightarrow> string" where
  "null_read k =
     ''Cannot read properties of null (reading '' @ [CHR 0x27] @ k @ [CHR 0x27] @ '')''"

fun get_prop :: "jsval \<Rightarrow> string \<Rightarrow> thrown + jsval option" where
  "get_prop JNull k = Inl (JSError (null_read k))"
| "get_prop (JObj fs) k = Inr (map_of fs k)"
| "get_prop v k = Inr None"

text \<open>
  \<^verbatim>\<open>(x as string) || fallback\<close>, converted to a string where it is used (as an
  \<^verbatim>\<open>Error\<close> message or inside a template literal): the cast checks nothing, so the
  fallback is taken exactly when \<^verbatim>\<open>x\<close> is undefined or falsy, and the conversion of a
  truthy \<^verbatim>\<open>x\<close> may raise.
\<close>

definition or_else :: "jsval option \<Rightarrow> string \<Rightarrow> thrown + string" where
  "or_else x fallback =
     (case x of
        None \<Rightarrow> Inr fallback
      | Some v \<Rightarrow>
          if truthy v then
            (case to_string v of
               None \<Rightarrow> Inl (JSError ''Cannot convert object to primitive value'')
             | Some s \<Rightarrow> Inr s)
          else Inr fallback)"

definition handleErrorResponse :: "Response \<Rightarrow> thrown" where
  "handleErrorResponse response =
     (let data = (case json response of
                    Inl _ \<Rightarrow> JObj [(''message'', JStr (statusText response))]
                  | Inr errorData \<Rightarrow> errorData)
      in
        if status response = 401 then SDKError new_AuthenticationError
        else if status response = 404 then
          (case get_prop data ''paymentId'' of
             Inl e \<Rightarrow> e
           | Inr paymentId \<Rightarrow>
               (case or_else paymentId ''unknown'' of
                  Inl e \<Rightarrow> e
                | Inr p \<Rightarrow> SDKError (new_PaymentNotFoundError p)))
        else if status response = 400 then
          (case get_prop data ''message'' of
             Inl e \<Rightarrow> e
           | Inr m \<Rightarrow>
               (case or_else m ''Validation failed'' of
                  Inl e \<Rightarrow> e
                | Inr msg \<Rightarrow> SDKError (new_ValidationError msg (Some data))))
        else
          (case get_prop data ''message'' of
             Inl e \<Rightarrow> e
           | Inr m \<Rightarrow>
               (case get_prop data ''code'' of
                  Inl e \<Rightarrow> e
                | Inr c \<Rightarrow>
                    (case or_else m (''HTTP '' @ number_to_string (status response) @ '': ''
                                     @ statusText response) of
                       Inl e \<Rightarrow> e
                     | Inr msg \<Rightarrow>
                         SDKError (new_KonnectSDKError msg (Some (status response)) c
                           (Some data))))))"

section \<open>The client configuration\<close>

datatype Environment = sandbox | production

fun BASE_URLS :: "Environment \<Rightarrow> string" where
  "BASE_URLS sandbox = ''https://api.sandbox.konnect.network/api/v2''"
| "BASE_URLS production = ''https://api.konnect.network/api/v2''"

text \<open>
  \<^verbatim>\<open>KonnectConfig\<close>, with its optional fields; the payment defaults are copied by the
  constructor and used by no code modelled here, so they are left out.
\<close>

record KonnectConfig =
  apiKey :: string
  environment :: "Environment option"
  timeout :: "rat option"
  retryAttempts :: "rat option"

text \<open>
  \<^verbatim>\<open>String.prototype.trim\<close>. Of the code units below 256 it strips tab, line feed,
  vertical tab, form feed, carriage return, space and the no-break space U+00A0.
\<close>

definition white_space :: "char \<Rightarrow> bool" where
  "white_space c =
     (c \<in> set [CHR 0x09, CHR 0x0A, CHR 0x0B, CHR 0x0C, CHR 0x0D, CHR 0x20, CHR 0xA0])"

definition trim :: "string \<Rightarrow> string" where
  "trim s = rev (dropWhile white_space (rev (dropWhile white_space s)))"

definition validateConfig :: "KonnectConfig \<Rightarrow> thrown + unit" where
  "validateConfig config =
     (if apiKey config = [] \<or> trim (apiKey config) = [] then
        Inl (SDKError (new_ValidationError ''API key is required'' None))
      else if (case timeout config of None \<Rightarrow> False | Some t \<Rightarrow> t \<noteq> 0 \<and> t < 0) then
        Inl (SDKError (new_ValidationError ''Timeout must be a positive number'' None))
      else if (case retryAttempts config of None \<Rightarrow> False | Some n \<Rightarrow> n \<noteq> 0 \<and> n < 0) then
        Inl (SDKError (new_ValidationError ''Retry attempts must be a positive number'' None))
      else Inr ())"

definition validatePaymentId :: "string \<Rightarrow> thrown + unit" where
  "validatePaymentId paymentId =
     (if paymentId = [] \<or> trim paymentId = [] then
        Inl (SDKError (new_ValidationError ''paymentId is required'' None))
      else Inr ())"

section \<open>The request executor\<close>

text \<open>
  The effects of \<^verbatim>\<open>makeRequest\<close>, in the order they happen: arming the abort timer
  (\<^verbatim>\<open>setTimeout(() => controller.abort(), config.timeout)\<close>), clearing it, a call of
  \<^verbatim>\<open>fetch\<close> and a backoff \<^verbatim>\<open>sleep\<close>. The transport is given by the outcome of each call
  of \<^verbatim>\<open>fetch\<close>, numbered from 0: a rejection or a response. Every attempt calls
  \<^verbatim>\<open>fetch\<close> once, so call \<open>i\<close> is attempt \<open>i\<close>. The fetch options are handed to
  \<^verbatim>\<open>fetch\<close> untouched and play no part in the control flow; they are left out.
  \<^verbatim>\<open>timeout\<close> and \<^verbatim>\<open>retryAttempts\<close> are numbers, whole or not: every finite
  number of JavaScript is a rational, and the comparisons of the loop with the counter
  \<^verbatim>\<open>attempt\<close> come out as on the rationals. The backoff \<^verbatim>\<open>2 ** attempt * 1000\<close> is the
  integer it denotes (the double precision value is that integer for every attempt below
  1000).
\<close>

datatype event =
    SetTimeout rat
  | ClearTimeout
  | Fetch string
  | Sleep int

type_synonym transport = "nat \<Rightarrow> thrown + Response"

record RequestConfig =
  timeout :: rat
  retryAttempts :: rat

text \<open>The body of the \<^verbatim>\<open>try\<close> block: its completion and the events it causes.\<close>

definition try_block :: "transport \<Rightarrow> string \<Rightarrow> nat \<Rightarrow> (thrown + jsval) \<times> event list" where
  "try_block fetch url attempt =
     (case fetch attempt of
        Inl error \<Rightarrow> (Inl error, [Fetch url])
      | Inr response \<Rightarrow>
          if \<not> ok response then (Inl (handleErrorResponse response), [Fetch url, ClearTimeout])
          else (json response, [Fetch url, ClearTimeout]))"

text \<open>
  The test of the \<^verbatim>\<open>catch\<close> block: a \<^verbatim>\<open>KonnectSDKError\<close> with a truthy status code
  from 400 to 499 other than 429.
\<close>

definition client_error :: "thrown \<Rightarrow> bool" where
  "client_error error =
     (case error of
        SDKError e \<Rightarrow>
          (case statusCode e of
             None \<Rightarrow> False
           | Some s \<Rightarrow> s \<noteq> 0 \<and> s \<ge> 400 \<and> s < 500 \<and> s \<noteq> 429)
      | _ \<Rightarrow> False)"

text \<open>
  \<^verbatim>\<open>error?.message\<close> of a caught value: the message of an \<^verbatim>\<open>Error\<close>, and of any other
  value its property \<^verbatim>\<open>message\<close>, which only an object has.
\<close>

fun error_message :: "thrown \<Rightarrow> jsval option" where
  "error_message (SDKError e) = Some (JStr (message e))"
| "error_message (JSError m) = Some (JStr m)"
| "error_message (NonError (JObj fs)) = map_of fs ''message''"
| "error_message (NonError v) = None"

text \<open>
  The error thrown after the loop, from \<^verbatim>\<open>lastError?.message || '...'\<close>; the constructor
  converts the message to a string.
\<close>

definition request_failed :: "thrown option \<Rightarrow> thrown" where
  "request_failed lastError =
     (case or_else (case lastError of None \<Rightarrow> None | Some e \<Rightarrow> error_message e)
             ''Request failed after retries'' of
        Inl e \<Rightarrow> e
      | Inr m \<Rightarrow> SDKError (new_KonnectSDKError m None (Some (JStr ''REQUEST_FAILED'')) None))"

text \<open>
  The \<^verbatim>\<open>for\<close> loop from a given \<^verbatim>\<open>attempt\<close>, with the code after it: the completion of
  the call and the events from there on. \<^verbatim>\<open>break\<close> leaves the loop for the code after
  it, with \<^verbatim>\<open>lastError\<close> just assigned.
\<close>

function retry_loop ::
  "transport \<Rightarrow> string \<Rightarrow> RequestConfig \<Rightarrow> nat \<Rightarrow> thrown option \<Rightarrow> (thrown + jsval) \<times> event list" where
  "retry_loop fetch url config attempt lastError =
     (if of_nat attempt < retryAttempts config then
        (case try_block fetch url attempt of
           (Inr v, evs) \<Rightarrow> (Inr v, evs)
         | (Inl error, evs) \<Rightarrow>
             if client_error error then (Inl error, evs)
             else if of_nat attempt = retryAttempts config - 1 then
               (Inl (request_failed (Some error)), evs @ [ClearTimeout])
             else
               (case retry_loop fetch url config (attempt + 1) (Some error) of
                  (r, rest) \<Rightarrow> (r, evs @ Sleep (2 ^ attempt * 1000) # rest)))
      else (Inl (request_failed lastError), [ClearTimeout]))"
  by pat_completeness auto
termination
proof (relation "measure (\<lambda>(fetch, url, config, attempt, lastError).
        nat \<lceil>retryAttempts config - of_nat attempt\<rceil>)")
  show "wf (measure (\<lambda>(fetch, url, config, attempt, lastError).
        nat \<lceil>retryAttempts (config :: RequestConfig) - of_nat attempt\<rceil>))"
    by simp
next
  fix fetch :: transport and url config attempt and lastError :: "thrown option"
  assume "of_nat attempt < retryAttempts config"
  then have "0 < \<lceil>retryAttempts config - of_nat attempt\<rceil>"
    by simp
  moreover have "\<lceil>retryAttempts config - of_nat (attempt + 1)\<rceil>
      = \<lceil>retryAttempts config - of_nat attempt\<rceil> - 1"
    by (simp add: algebra_simps ceiling_diff_one [symmetric])
  ultimately show "((fetch, url, config, attempt + 1, Some e), fetch, url, config, attempt, lastError)
      \<in> measure (\<lambda>(fetch, url, config, attempt, lastError).
            nat \<lceil>retryAttempts config - of_nat attempt\<rceil>)" for e
    by simp
qed

declare retry_loop.simps [simp del]

definition makeRequest ::
  "transport \<Rightarrow> string \<Rightarrow> RequestConfig \<Rightarrow> (thrown + jsval) \<times> event list" where
  "makeRequest fetch url config =
     (case retry_loop fetch url config 0 None of
        (r, evs) \<Rightarrow> (r, SetTimeout (timeout config) # evs))"

text \<open>A scripted transport, as the mocks of the test suite: the listed outcomes in turn, then \<open>d\<close>.\<close>

definition replay :: "(thrown + Response) list \<Rightarrow> (thrown + Response) \<Rightarrow> transport" where
  "replay outcomes d i = (if i < length outcomes then outcomes ! i else d)"

text \<open>Sample responses for the scenarios below.\<close>

definition server_error :: Response where
  "server_error =
     \<lparr>ok = False, status = 500, statusText = ''Internal Server Error'',
      json = Inr (JObj [(''message'', JStr ''boom''), (''code'', JStr ''E500'')])\<rparr>"

definition too_many_requests :: Response where
  "too_many_requests =
     \<lparr>ok = False, status = 429, statusText = ''Too Many Requests'',
      json = Inl (JSError ''Unexpected end of JSON input'')\<rparr>"

definition not_found :: Response where
  "not_found =
     \<lparr>ok = False, status = 404, statusText = ''Not Found'',
      json = Inr (JObj [(''paymentId'', JStr ''abc'')])\<rparr>"

definition ok_null :: Response where
  "ok_null = \<lparr>ok = True, status = 200, statusText = ''OK'', json = Inr JNull\<rparr>"

section \<open>The response envelope\<close>

text \<open>
  \<^verbatim>\<open>ApiResponse<T>\<close>: the \<^verbatim>\<open>data\<close> arm holds what the operation resolved to, or
  \<^verbatim>\<open>null\<close>; the \<^verbatim>\<open>error\<close> arm holds an error object, or \<^verbatim>\<open>null\<close> (\<open>None\<close>).
  \<^verbatim>\<open>wrapResponse\<close> awaits \<^verbatim>\<open>fn()\<close> once; \<open>fn\<close> here is the completion of that call.
  The result type keeps a place for an exception leaving \<^verbatim>\<open>wrapResponse\<close> itself.
\<close>

record ApiResponse =
  data :: jsval
  error :: "KonnectError option"

definition wrapResponse :: "thrown + jsval \<Rightarrow> thrown + ApiResponse" where
  "wrapResponse fn =
     (case fn of
        Inr v \<Rightarrow> Inr \<lparr>data = v, error = None\<rparr>
      | Inl (SDKError e) \<Rightarrow> Inr \<lparr>data = JNull, error = Some (toJSON e)\<rparr>
      | Inl (JSError m) \<Rightarrow>
          Inr \<lparr>data = JNull,
               error = Some \<lparr>message = m, statusCode = None,
                             code = Some (JStr ''UNKNOWN_ERROR''), details = None\<rparr>\<rparr>
      | Inl (NonError v) \<Rightarrow>
          Inr \<lparr>data = JNull,
               error = Some \<lparr>message = ''Unknown error'', statusCode = None,
                             code = Some (JStr ''UNKNOWN_ERROR''), details = None\<rparr>\<rparr>)"

section \<open>The client\<close>

text \<open>The fields of a \<^verbatim>\<open>KonnectSDK\<close> instance that the requests read.\<close>

record KonnectSDK = RequestConfig +
  apiKey :: string
  baseUrl :: string

definition new_KonnectSDK :: "KonnectConfig \<Rightarrow> thrown + KonnectSDK" where
  "new_KonnectSDK config =
     (case validateConfig config of
        Inl e \<Rightarrow> Inl e
      | Inr _ \<Rightarrow>
          Inr \<lparr>timeout =
                 (case KonnectConfig.timeout config of
                    None \<Rightarrow> 30000
                  | Some t \<Rightarrow> if t = 0 then 30000 else t),
               retryAttempts =
                 (case KonnectConfig.retryAttempts config of
                    None \<Rightarrow> 3
                  | Some n \<Rightarrow> if n = 0 then 3 else n),
               apiKey = KonnectConfig.apiKey config,
               baseUrl =
                 BASE_URLS (case environment config of None \<Rightarrow> sandbox | Some e \<Rightarrow> e)\<rparr>)"

text \<open>The private method \<^verbatim>\<open>request\<close>, through which every public method calls the API.\<close>

definition request :: "KonnectSDK \<Rightarrow> transport \<Rightarrow> string \<Rightarrow> (thrown + jsval) \<times> event list" where
  "request this fetch endpoint =
     makeRequest fetch (baseUrl this @ endpoint)
       \<lparr>timeout = timeout this, retryAttempts = retryAttempts this\<rparr>"

definition getPaymentDetails ::
  "KonnectSDK \<Rightarrow> transport \<Rightarrow> string \<Rightarrow> (thrown + ApiResponse) \<times> event list" where
  "getPaymentDetails this fetch paymentId =
     (case validatePaymentId paymentId of
        Inl e \<Rightarrow> (wrapResponse (Inl e), [])
      | Inr _ \<Rightarrow>
          (case request this fetch (''/payments/'' @ paymentId) of
             (r, evs) \<Rightarrow> (wrapResponse r, evs)))"

section \<open>Reading a trace\<close>

fun sleeps :: "event list \<Rightarrow> int list" where
  "sleeps [] = []"
| "sleeps (Sleep ms # evs) = ms # sleeps evs"
| "sleeps (_ # evs) = sleeps evs"

fun fetches :: "event list \<Rightarrow> nat" where
  "fetches [] = 0"
| "fetches (Fetch url # evs) = Suc (fetches evs)"
| "fetches (_ # evs) = fetches evs"

text \<open>The calls and the sleeps of a trace, in order, without the timer events.\<close>

fun schedule :: "event list \<Rightarrow> event list" where
  "schedule [] = []"
| "schedule (Fetch url # evs) = Fetch url # schedule evs"
| "schedule (Sleep ms # evs) = Sleep ms # schedule evs"
| "schedule (_ # evs) = schedule evs"

text \<open>
  For each call of \<^verbatim>\<open>fetch\<close> in a trace, whether the abort timer is armed while the call
  is in flight: armed by \<open>SetTimeout\<close>, disarmed by \<open>ClearTimeout\<close>.
\<close>

fun deadline_at_fetch :: "bool \<Rightarrow> event list \<Rightarrow> bool list" where
  "deadline_at_fetch armed [] = []"
| "deadline_at_fetch armed (SetTimeout ms # evs) = deadline_at_fetch True evs"
| "deadline_at_fetch armed (ClearTimeout # evs) = deadline_at_fetch False evs"
| "deadline_at_fetch armed (Fetch url # evs) = armed # deadline_at_fetch armed evs"
| "deadline_at_fetch armed (Sleep ms # evs) = deadline_at_fetch armed evs"

section \<open>Notions used in the statements\<close>

text \<open>
  An attempt fails and the \<^verbatim>\<open>catch\<close> block does not rethrow: the completion of the
  \<^verbatim>\<open>try\<close> block is an error that is not a client error.
\<close>

definition failed_retryably :: "thrown + jsval \<Rightarrow> bool" where
  "failed_retryably r = (case r of Inl e \<Rightarrow> \<not> client_error e | Inr v \<Rightarrow> False)"

text \<open>
  The specification's schedule of a call that makes \<open>a\<close> attempts: a sleep of
  \<open>2^attempt * 1000\<close> ms after every attempt but the last, none after the last.
\<close>

definition spec_backoff_schedule :: "string \<Rightarrow> nat \<Rightarrow> event list" where
  "spec_backoff_schedule url a =
     (if a = 0 then []
      else concat (map (\<lambda>attempt. [Fetch url, Sleep (2 ^ attempt * 1000)]) [0..<a - 1])
           @ [Fetch url])"

text \<open>
  The specification's retryable failures, as outcomes of \<^verbatim>\<open>fetch\<close>: a transport-level
  failure (a rejection that is no classified error), or a response that is not ok with
  status 429 or at least 500.
\<close>

definition spec_retryable_failure :: "thrown + Response \<Rightarrow> bool" where
  "spec_retryable_failure outcome =
     (case outcome of
        Inl e \<Rightarrow> (case e of SDKError x \<Rightarrow> False | _ \<Rightarrow> True)
      | Inr r \<Rightarrow> \<not> ok r \<and> (status r = 429 \<or> status r \<ge> 500))"

text \<open>
  The specification's retryable errors, as values caught in an attempt: status 429,
  status at least 500, or no status code at all.
\<close>

definition spec_retryable_error :: "thrown \<Rightarrow> bool" where
  "spec_retryable_error err =
     (case err of
        SDKError e \<Rightarrow> (case statusCode e of None \<Rightarrow> True | Some s \<Rightarrow> s = 429 \<or> s \<ge> 500)
      | _ \<Rightarrow> True)"

text \<open>
  What the classifier raises on a response with status \<open>st\<close>: a classified error with that
  status code, or the \<^verbatim>\<open>TypeError\<close> of a failed read or conversion.
\<close>

definition raised_by_classifier :: "int \<Rightarrow> thrown \<Rightarrow> bool" where
  "raised_by_classifier st t =
     (case t of
        SDKError e \<Rightarrow> statusCode e = Some st
      | JSError m \<Rightarrow> True
      | NonError v \<Rightarrow> False)"

text \<open>The transport returns a response with the given status that is not ok.\<close>

definition spec_returns_status :: "int \<Rightarrow> thrown + Response \<Rightarrow> bool" where
  "spec_returns_status s outcome =
     (case outcome of Inl e \<Rightarrow> False | Inr r \<Rightarrow> \<not> ok r \<and> status r = s)"

text \<open>
  The fields the classifier casts to \<^verbatim>\<open>string\<close>: absent, or a string. The
  specification's reading of such a field: its value, or the fallback when it is absent or
  empty.
\<close>

fun string_or_absent :: "jsval option \<Rightarrow> bool" where
  "string_or_absent None = True"
| "string_or_absent (Some (JStr s)) = True"
| "string_or_absent (Some v) = False"

definition spec_field_or :: "(string \<times> jsval) list \<Rightarrow> string \<Rightarrow> string \<Rightarrow> string" where
  "spec_field_or body k fallback =
     (case map_of body k of
        Some (JStr s) \<Rightarrow> if s = [] then fallback else s
      | _ \<Rightarrow> fallback)"

section \<open>The classifier's table\<close>

text \<open>
  The table of \<^verbatim>\<open>handleErrorResponse\<close> on a body that is a JSON object whose
  \<^verbatim>\<open>paymentId\<close> and \<^verbatim>\<open>message\<close> are strings where present, as the casts of the source
  declare them: 401 gives the authentication error, 404 the not-found error naming the
  payment id or \<^verbatim>\<open>unknown\<close>, 400 the validation error with the whole body as details, any
  other status the generic error with the response status and the body's code.
\<close>

lemma or_else_string:
  assumes "string_or_absent (map_of body k)"
  shows "or_else (map_of body k) fb = Inr (spec_field_or body k fb)"
  using assms
  by (cases "map_of body k" rule: string_or_absent.cases)
     (auto simp: or_else_def spec_field_or_def)

lemma classifier_table:
  assumes "string_or_absent (map_of body ''paymentId'')"
    and "string_or_absent (map_of body ''message'')"
  shows "\<exists>e. handleErrorResponse \<lparr>ok = b, status = st, statusText = tx, json = Inr (JObj body)\<rparr>
             = SDKError e
     \<and> e =
       (if st = 401 then
          \<lparr>message = ''Invalid or missing API key'', statusCode = Some 401,
           code = Some (JStr ''INVALID_AUTH''), details = None, name = ''AuthenticationError''\<rparr>
        else if st = 404 then
          \<lparr>message = ''Payment with ID '' @ spec_field_or body ''paymentId'' ''unknown''
                       @ '' not found'',
           statusCode = Some 404, code = Some (JStr ''PAYMENT_NOT_FOUND''), details = None,
           name = ''PaymentNotFoundError''\<rparr>
        else if st = 400 then
          \<lparr>message = spec_field_or body ''message'' ''Validation failed'',
           statusCode = Some 400, code = Some (JStr ''VALIDATION_ERROR''),
           details = Some (JObj body), name = ''ValidationError''\<rparr>
        else
          \<lparr>message = spec_field_or body ''message''
                       (''HTTP '' @ number_to_string st @ '': '' @ tx),
           statusCode = Some st, code = map_of body ''code'',
           details = Some (JObj body), name = ''KonnectSDKError''\<rparr>)
     \<and> (st = 404 \<longrightarrow>
          (case map_of body ''paymentId'' of
             Some (JStr s) \<Rightarrow> sublist s (message e)
           | _ \<Rightarrow> sublist ''unknown'' (message e)))"
proof -
  let ?r = "\<lparr>ok = b, status = st, statusText = tx, json = Inr (JObj body)\<rparr>"
  let ?pid = "spec_field_or body ''paymentId'' ''unknown''"
  have table: "handleErrorResponse ?r =
      SDKError
       (if st = 401 then
          \<lparr>message = ''Invalid or missing API key'', statusCode = Some 401,
           code = Some (JStr ''INVALID_AUTH''), details = None, name = ''AuthenticationError''\<rparr>
        else if st = 404 then
          \<lparr>message = ''Payment with ID '' @ ?pid @ '' not found'',
           statusCode = Some 404, code = Some (JStr ''PAYMENT_NOT_FOUND''), details = None,
           name = ''PaymentNotFoundError''\<rparr>
        else if st = 400 then
          \<lparr>message = spec_field_or body ''message'' ''Validation failed'',
           statusCode = Some 400, code = Some (JStr ''VALIDATION_ERROR''),
           details = Some (JObj body), name = ''ValidationError''\<rparr>
        else
          \<lparr>message = spec_field_or body ''message''
                       (''HTTP '' @ number_to_string st @ '': '' @ tx),
           statusCode = Some st, code = map_of body ''code'',
           details = Some (JObj body), name = ''KonnectSDKError''\<rparr>)"
    by (simp add: handleErrorResponse_def or_else_string [OF assms(1)]
        or_else_string [OF assms(2)] new_AuthenticationError_def
        new_PaymentNotFoundError_def new_ValidationError_def new_KonnectSDKError_def)
  have inside: "sublist ?pid (''Payment with ID '' @ ?pid @ '' not found'')"
    unfolding sublist_def by blast
  have named: "case map_of body ''paymentId'' of
                 Some (JStr s) \<Rightarrow> sublist s (''Payment with ID '' @ ?pid @ '' not found'')
               | _ \<Rightarrow> sublist ''unknown'' (''Payment with ID '' @ ?pid @ '' not found'')"
  proof (cases "map_of body ''paymentId''" rule: string_or_absent.cases)
    case 1
    then have "?pid = ''unknown''" by (simp add: spec_field_or_def)
    with inside 1 show ?thesis by simp
  next
    case (2 s)
    show ?thesis
    proof (cases "s = []")
      case True
      with 2 show ?thesis by simp
    next
      case False
      with 2 have "?pid = s" by (simp add: spec_field_or_def)
      with inside 2 show ?thesis by simp
    qed
  qed (use assms(1) in simp_all)
  define e where "e =
       (if st = 401 then
          \<lparr>message = ''Invalid or missing API key'', statusCode = Some 401,
           code = Some (JStr ''INVALID_AUTH''), details = None, name = ''AuthenticationError''\<rparr>
        else if st = 404 then
          \<lparr>message = ''Payment with ID '' @ ?pid @ '' not found'',
           statusCode = Some 404, code = Some (JStr ''PAYMENT_NOT_FOUND''), details = None,
           name = ''PaymentNotFoundError''\<rparr>
        else if st = 400 then
          \<lparr>message = spec_field_or body ''message'' ''Validation failed'',
           statusCode = Some 400, code = Some (JStr ''VALIDATION_ERROR''),
           details = Some (JObj body), name = ''ValidationError''\<rparr>
        else
          \<lparr>message = spec_field_or body ''message''
                       (''HTTP '' @ number_to_string st @ '': '' @ tx),
           statusCode = Some st, code = map_of body ''code'',
           details = Some (JObj body), name = ''KonnectSDKError''\<rparr>)"
  have raised: "handleErrorResponse ?r = SDKError e"
    unfolding e_def by (rule table)
  have contained: "st = 404 \<longrightarrow>
          (case map_of body ''paymentId'' of
             Some (JStr s) \<Rightarrow> sublist s (message e)
           | _ \<Rightarrow> sublist ''unknown'' (message e))"
  proof
    assume "st = 404"
    then have "message e = ''Payment with ID '' @ ?pid @ '' not found''"
      by (simp add: e_def)
    then show "case map_of body ''paymentId'' of
             Some (JStr s) \<Rightarrow> sublist s (message e)
           | _ \<Rightarrow> sublist ''unknown'' (message e)"
      using named by (simp only:)
  qed
  from raised contained show ?thesis
    unfolding e_def by blast
qed

text \<open>
  Whatever the body, the statuses 429 and 500 and above never give a client error: the
  classifier gives the generic error with the response status, or the \<^verbatim>\<open>TypeError\<close> of a
  property read on \<^verbatim>\<open>null\<close> or of a message that has no string form.
\<close>

lemma get_prop_Inl: "get_prop d k = Inl e \<Longrightarrow> e = JSError (null_read k)"
  by (cases d) auto

lemma or_else_Inl:
  "or_else x fb = Inl e \<Longrightarrow> e = JSError ''Cannot convert object to primitive value''"
  by (auto simp: or_else_def split: option.splits if_splits)

lemma classifier_raises: "raised_by_classifier (status r) (handleErrorResponse r)"
proof -
  have read: "raised_by_classifier st (case get_prop d k of Inl e \<Rightarrow> e | Inr x \<Rightarrow> f x)"
    if "\<And>x. raised_by_classifier st (f x)" for st d k and f :: "jsval option \<Rightarrow> thrown"
    using that by (cases d) (simp_all add: raised_by_classifier_def)
  have convert: "raised_by_classifier st (case or_else x fb of Inl e \<Rightarrow> e | Inr m \<Rightarrow> f m)"
    if "\<And>m. raised_by_classifier st (f m)" for st x fb and f :: "string \<Rightarrow> thrown"
  proof (cases "or_else x fb")
    case (Inl e)
    then show ?thesis by (simp add: raised_by_classifier_def or_else_Inl [OF Inl])
  next
    case (Inr m)
    with that show ?thesis by simp
  qed
  have made: "raised_by_classifier st (SDKError e)" if "statusCode e = Some st" for st e
    using that by (simp add: raised_by_classifier_def)
  consider "status r = 401" | "status r = 404" | "status r = 400"
    | "status r \<noteq> 401" "status r \<noteq> 404" "status r \<noteq> 400"
    by blast
  then show ?thesis
  proof cases
    case 1
    then show ?thesis
      by (simp add: handleErrorResponse_def made new_AuthenticationError_def
          new_KonnectSDKError_def)
  next
    case 2
    then show ?thesis
      unfolding handleErrorResponse_def Let_def
      by (simp del: get_prop.simps)
         (intro read convert made, simp add: new_PaymentNotFoundError_def
           new_KonnectSDKError_def)
  next
    case 3
    then show ?thesis
      unfolding handleErrorResponse_def Let_def
      by (simp del: get_prop.simps)
         (intro read convert made, simp add: new_ValidationError_def new_KonnectSDKError_def)
  next
    case 4
    then show ?thesis
      unfolding handleErrorResponse_def Let_def
      by (simp del: get_prop.simps)
         (intro read convert made, simp add: new_KonnectSDKError_def)
  qed
qed

lemma server_error_not_client_error:
  assumes "status r = 429 \<or> status r \<ge> 500"
  shows "\<not> client_error (handleErrorResponse r)"
  using classifier_raises [of r] assms
  by (cases "handleErrorResponse r") (auto simp: raised_by_classifier_def client_error_def)

lemma classifier_has_message:
  "\<exists>m. error_message (handleErrorResponse r) = Some (JStr m)"
  using classifier_raises [of r]
  by (cases "handleErrorResponse r") (auto simp: raised_by_classifier_def)

section \<open>Traces and the retry loop\<close>

lemma schedule_append: "schedule (xs @ ys) = schedule xs @ schedule ys"
  by (induction xs rule: schedule.induct) auto

lemma sleeps_append: "sleeps (xs @ ys) = sleeps xs @ sleeps ys"
  by (induction xs rule: sleeps.induct) auto

lemma fetches_append: "fetches (xs @ ys) = fetches xs + fetches ys"
  by (induction xs rule: fetches.induct) auto

lemma try_block_events:
  "snd (try_block fetch url k) = [Fetch url]
   \<or> snd (try_block fetch url k) = [Fetch url, ClearTimeout]"
  by (auto simp: try_block_def split: sum.splits)

lemma schedule_try_block: "schedule (snd (try_block fetch url k)) = [Fetch url]"
  using try_block_events [of fetch url k] by auto

lemma sleeps_try_block: "sleeps (snd (try_block fetch url k)) = []"
  using try_block_events [of fetch url k] by auto

lemma fetches_try_block: "fetches (snd (try_block fetch url k)) = 1"
  using try_block_events [of fetch url k] by auto

text \<open>The loop, one case of its body at a time.\<close>

lemma retry_loop_exhausted:
  "\<not> of_nat attempt < retryAttempts config \<Longrightarrow>
   retry_loop fetch url config attempt lastError = (Inl (request_failed lastError), [ClearTimeout])"
  by (simp add: retry_loop.simps [of fetch url config attempt])

lemma retry_loop_lastError:
  "of_nat k < retryAttempts config \<Longrightarrow>
   retry_loop fetch url config k le = retry_loop fetch url config k le'"
  by (simp add: retry_loop.simps [of fetch url config k])

lemma retry_loop_success:
  assumes "of_nat k < retryAttempts config" and "fst (try_block fetch url k) = Inr v"
  shows "retry_loop fetch url config k le = (Inr v, snd (try_block fetch url k))"
  using assms
  by (cases "try_block fetch url k") (simp add: retry_loop.simps [of fetch url config k])

lemma retry_loop_client_error:
  assumes "of_nat k < retryAttempts config" and "fst (try_block fetch url k) = Inl e"
    and "client_error e"
  shows "retry_loop fetch url config k le = (Inl e, snd (try_block fetch url k))"
  using assms
  by (cases "try_block fetch url k") (simp add: retry_loop.simps [of fetch url config k])

lemma retry_loop_last:
  assumes "of_nat k = retryAttempts config - 1" and "fst (try_block fetch url k) = Inl e"
    and "\<not> client_error e"
  shows "retry_loop fetch url config k le =
           (Inl (request_failed (Some e)), snd (try_block fetch url k) @ [ClearTimeout])"
proof -
  have "of_nat k < retryAttempts config" using assms(1) by simp
  then show ?thesis
    using assms
    by (cases "try_block fetch url k") (simp add: retry_loop.simps [of fetch url config k])
qed

text \<open>
  An attempt that fails retryably and is not the last by the test of the loop
  (\<^verbatim>\<open>attempt === config.retryAttempts - 1\<close>) is followed by its sleep and by the loop from
  the next value of the counter, whether or not the loop condition still holds there.
\<close>

lemma retry_loop_sleep:
  assumes "of_nat k < retryAttempts config" and "of_nat k \<noteq> retryAttempts config - 1"
    and "fst (try_block fetch url k) = Inl e" and "\<not> client_error e"
  shows "retry_loop fetch url config k le =
           (fst (retry_loop fetch url config (Suc k) (Some e)),
            snd (try_block fetch url k) @ Sleep (2 ^ k * 1000)
              # snd (retry_loop fetch url config (Suc k) (Some e)))"
  using assms
  by (cases "try_block fetch url k")
     (simp add: retry_loop.simps [of fetch url config k] split: prod.splits)

lemma retry_loop_step:
  assumes "of_nat k + 1 < retryAttempts config" and "fst (try_block fetch url k) = Inl e"
    and "\<not> client_error e"
  shows "retry_loop fetch url config k le =
           (fst (retry_loop fetch url config (Suc k) le'),
            snd (try_block fetch url k) @ Sleep (2 ^ k * 1000)
              # snd (retry_loop fetch url config (Suc k) le'))"
proof -
  have "retry_loop fetch url config (Suc k) (Some e) = retry_loop fetch url config (Suc k) le'"
    using assms(1) by (intro retry_loop_lastError) (simp add: add.commute)
  moreover have "of_nat k < retryAttempts config" "of_nat k \<noteq> retryAttempts config - 1"
    using assms(1) by auto
  ultimately show ?thesis
    using retry_loop_sleep [of k config fetch url e le] assms(2,3) by simp
qed

text \<open>
  While the attempts fail retryably the loop goes on: the call from attempt 0 is the
  events of the first \<open>j\<close> attempts, each followed by its sleep, and then the call from
  attempt \<open>j\<close>.
\<close>

lemma retry_loop_unroll:
  assumes "of_nat j < retryAttempts config"
    and "\<forall>i<j. failed_retryably (fst (try_block fetch url i))"
  shows "retry_loop fetch url config 0 le =
           (fst (retry_loop fetch url config j le),
            concat (map (\<lambda>i. snd (try_block fetch url i) @ [Sleep (2 ^ i * 1000)]) [0..<j])
              @ snd (retry_loop fetch url config j le))"
  using assms
proof (induction j)
  case 0
  then show ?case by simp
next
  case (Suc j)
  from Suc.prems have "failed_retryably (fst (try_block fetch url j))" by simp
  then obtain e where e: "fst (try_block fetch url j) = Inl e" "\<not> client_error e"
    by (cases "fst (try_block fetch url j)") (auto simp: failed_retryably_def)
  have next_one: "of_nat j + 1 < retryAttempts config"
    using Suc.prems(1) by (simp add: add.commute)
  have step: "retry_loop fetch url config j le =
           (fst (retry_loop fetch url config (Suc j) le),
            snd (try_block fetch url j) @ Sleep (2 ^ j * 1000)
              # snd (retry_loop fetch url config (Suc j) le))"
    using next_one e by (rule retry_loop_step)
  have "of_nat j < retryAttempts config" using next_one by simp
  then have "retry_loop fetch url config 0 le =
           (fst (retry_loop fetch url config j le),
            concat (map (\<lambda>i. snd (try_block fetch url i) @ [Sleep (2 ^ i * 1000)]) [0..<j])
              @ snd (retry_loop fetch url config j le))"
    using Suc by simp
  then show ?case by (simp add: step)
qed

lemma sleeps_prefix:
  "sleeps (concat (map (\<lambda>i. snd (try_block fetch url i) @ [Sleep (g i)]) xs)) = map g xs"
  by (induction xs) (simp_all add: sleeps_append sleeps_try_block)

lemma fetches_prefix:
  "fetches (concat (map (\<lambda>i. snd (try_block fetch url i) @ [Sleep (g i)]) xs)) = length xs"
  by (induction xs) (simp_all add: fetches_append fetches_try_block)

lemma schedule_prefix:
  "schedule (concat (map (\<lambda>i. snd (try_block fetch url i) @ [Sleep (g i)]) xs))
     = concat (map (\<lambda>i. [Fetch url, Sleep (g i)]) xs)"
  by (induction xs) (simp_all add: schedule_append schedule_try_block)

lemma retry_loop_starts:
  assumes "of_nat k < retryAttempts config"
  shows "\<exists>rest. snd (retry_loop fetch url config k le) = snd (try_block fetch url k) @ rest"
  using assms
  by (cases "try_block fetch url k")
     (auto simp: retry_loop.simps [of fetch url config k] split: sum.splits prod.splits)

lemma spec_retryable_error_not_client: "spec_retryable_error err \<Longrightarrow> \<not> client_error err"
  by (auto simp: spec_retryable_error_def client_error_def split: thrown.splits option.splits)

lemma makeRequest_eq:
  "makeRequest fetch url config =
     (fst (retry_loop fetch url config 0 None),
      SetTimeout (timeout config) # snd (retry_loop fetch url config 0 None))"
  by (simp add: makeRequest_def split: prod.splits)

text \<open>The loop when \<^verbatim>\<open>retryAttempts\<close> is a whole number \<open>n\<close>.\<close>

lemma retry_loop_schedule:
  assumes "retryAttempts config = of_int n" and "int k < n"
  shows "\<exists>m\<ge>k. int m < n
           \<and> schedule (snd (retry_loop fetch url config k le))
               = concat (map (\<lambda>i. [Fetch url, Sleep (2 ^ i * 1000)]) [k..<m]) @ [Fetch url]"
  using assms(2)
proof (induction "nat (n - int k)" arbitrary: k le)
  case 0
  then show ?case by simp
next
  case (Suc d)
  have whole: "(of_nat i < retryAttempts config) = (int i < n)"
    "(of_nat i = retryAttempts config - 1) = (int i = n - 1)"
    "(of_nat i + 1 < retryAttempts config) = (int i + 1 < n)" for i
    unfolding assms(1)
    by (metis of_int_less_iff of_int_of_nat_eq,
        metis of_int_1 of_int_diff of_int_eq_iff of_int_of_nat_eq,
        metis of_int_1 of_int_add of_int_less_iff of_int_of_nat_eq)
  have k: "of_nat k < retryAttempts config" using Suc.prems by (simp add: whole)
  consider (returned) v where "fst (try_block fetch url k) = Inr v"
    | (client) e where "fst (try_block fetch url k) = Inl e" "client_error e"
    | (final) e where "fst (try_block fetch url k) = Inl e" "\<not> client_error e"
        "int k = n - 1"
    | (more) e where "fst (try_block fetch url k) = Inl e" "\<not> client_error e"
        "int k + 1 < n"
    using Suc.prems by (cases "fst (try_block fetch url k)") fastforce+
  then show ?case
  proof cases
    case returned
    then have "schedule (snd (retry_loop fetch url config k le)) = [Fetch url]"
      using k by (simp add: retry_loop_success schedule_try_block)
    with Suc.prems show ?thesis by (intro exI [of _ k]) simp
  next
    case client
    then have "schedule (snd (retry_loop fetch url config k le)) = [Fetch url]"
      using k by (simp add: retry_loop_client_error schedule_try_block)
    with Suc.prems show ?thesis by (intro exI [of _ k]) simp
  next
    case final
    then have "of_nat k = retryAttempts config - 1" by (simp add: whole)
    with final have "schedule (snd (retry_loop fetch url config k le)) = [Fetch url]"
      by (simp add: retry_loop_last schedule_append schedule_try_block)
    with Suc.prems show ?thesis by (intro exI [of _ k]) simp
  next
    case more
    have "d = nat (n - int (Suc k))" using Suc.hyps(2) by simp
    moreover have "int (Suc k) < n" using more by simp
    ultimately obtain m where m: "Suc k \<le> m" "int m < n"
      "schedule (snd (retry_loop fetch url config (Suc k) le))
         = concat (map (\<lambda>i. [Fetch url, Sleep (2 ^ i * 1000)]) [Suc k..<m]) @ [Fetch url]"
      using Suc.hyps(1) [of "Suc k" le] by blast
    have "of_nat k + 1 < retryAttempts config" using more by (simp add: whole)
    then have "schedule (snd (retry_loop fetch url config k le))
        = Fetch url # Sleep (2 ^ k * 1000)
            # schedule (snd (retry_loop fetch url config (Suc k) le))"
      using more
      by (simp add: retry_loop_step [where le' = le] schedule_append schedule_try_block)
    also have "\<dots> = concat (map (\<lambda>i. [Fetch url, Sleep (2 ^ i * 1000)]) [k..<m]) @ [Fetch url]"
      using m by (simp add: upt_conv_Cons)
    finally show ?thesis using m by (intro exI [of _ m]) simp
  qed
qed

lemma spec_retryable_failure_failed:
  assumes "spec_retryable_failure (fetch i)"
  shows "failed_retryably (fst (try_block fetch url i))"
proof (cases "fetch i")
  case (Inl e)
  with assms show ?thesis
    by (cases e) (simp_all add: spec_retryable_failure_def try_block_def failed_retryably_def
        client_error_def)
next
  case (Inr r)
  with assms have "\<not> ok r" "status r = 429 \<or> status r \<ge> 500"
    by (simp_all add: spec_retryable_failure_def)
  with Inr show ?thesis
    by (simp add: try_block_def failed_retryably_def server_error_not_client_error)
qed

lemma retry_loop_all_failed:
  assumes "retryAttempts config = of_int n" and "0 < n"
    and "\<forall>i. int i < n \<longrightarrow> failed_retryably (fst (try_block fetch url i))"
  shows "\<exists>e. fst (try_block fetch url (nat n - 1)) = Inl e
    \<and> retry_loop fetch url config 0 None =
       (Inl (request_failed (Some e)),
        concat (map (\<lambda>i. snd (try_block fetch url i) @ [Sleep (2 ^ i * 1000)])
                 [0..<nat n - 1])
        @ snd (try_block fetch url (nat n - 1)) @ [ClearTimeout])"
proof -
  let ?j = "nat n - 1"
  have j: "int ?j = n - 1" using assms(2) by simp
  then have "failed_retryably (fst (try_block fetch url ?j))" using assms(3) by simp
  then obtain e where e: "fst (try_block fetch url ?j) = Inl e" "\<not> client_error e"
    by (cases "fst (try_block fetch url ?j)") (auto simp: failed_retryably_def)
  have last_one: "of_nat ?j = retryAttempts config - 1"
    unfolding assms(1) using j by (metis of_int_1 of_int_diff of_int_of_nat_eq)
  then have "of_nat ?j < retryAttempts config" by simp
  moreover have "\<forall>i<?j. failed_retryably (fst (try_block fetch url i))"
    using assms(3) j by auto
  ultimately have "retry_loop fetch url config 0 None =
           (fst (retry_loop fetch url config ?j None),
            concat (map (\<lambda>i. snd (try_block fetch url i) @ [Sleep (2 ^ i * 1000)]) [0..<?j])
              @ snd (retry_loop fetch url config ?j None))"
    by (rule retry_loop_unroll)
  moreover have "retry_loop fetch url config ?j None =
           (Inl (request_failed (Some e)), snd (try_block fetch url ?j) @ [ClearTimeout])"
    using last_one e by (rule retry_loop_last)
  ultimately show ?thesis using e by simp
qed

section \<open>Client errors are terminal\<close>

text \<open>
  C1. Take any attempt \<open>k\<close> the loop reaches (the attempts before it failed retryably)
  and let it raise \<open>err\<close>. If \<open>err\<close> is a classified error with a status code from 400 to
  499 other than 429, \<^verbatim>\<open>makeRequest\<close> fails with that very error, whatever the number of
  attempts left: no call of \<^verbatim>\<open>fetch\<close> and no sleep follows it, the only sleeps of the
  call being the \<open>k\<close> backoffs before attempt \<open>k\<close> (none at all when the error comes on
  the first attempt). If \<open>err\<close> has status 429, a status of at least 500 or no status code,
  and an attempt is left, the executor sleeps \<open>2^k * 1000\<close> ms and calls \<^verbatim>\<open>fetch\<close> again.
\<close>

theorem client_error_terminal:
  assumes "of_nat k < retryAttempts config"
    and "list_all (\<lambda>i. failed_retryably (fst (try_block fetch url i))) [0..<k]"
    and "fst (try_block fetch url k) = Inl err"
  shows "(err = SDKError e \<and> statusCode e = Some s \<and> 400 \<le> s \<and> s \<le> 499 \<and> s \<noteq> 429 \<longrightarrow>
            fst (makeRequest fetch url config) = Inl (SDKError e)
            \<and> sleeps (snd (makeRequest fetch url config)) = map (\<lambda>i. 2 ^ i * 1000) [0..<k]
            \<and> fetches (snd (makeRequest fetch url config)) = k + 1)
       \<and> (spec_retryable_error err \<and> of_nat k + 1 < retryAttempts config \<longrightarrow>
            fetches (snd (makeRequest fetch url config)) \<ge> k + 2
            \<and> take (k + 1) (sleeps (snd (makeRequest fetch url config)))
                = map (\<lambda>i. 2 ^ i * 1000) [0..<k + 1])"
proof (intro conjI impI)
  have before: "\<forall>i<k. failed_retryably (fst (try_block fetch url i))"
    using assms(2) by (simp add: list_all_iff)
  note unroll = retry_loop_unroll [OF assms(1) before, of None]
  {
    assume a: "err = SDKError e \<and> statusCode e = Some s \<and> 400 \<le> s \<and> s \<le> 499 \<and> s \<noteq> 429"
    then have "client_error err" by (simp add: client_error_def)
    then have at_k: "retry_loop fetch url config k None = (Inl err, snd (try_block fetch url k))"
      using assms(1,3) by (intro retry_loop_client_error)
    show "fst (makeRequest fetch url config) = Inl (SDKError e)"
      using a by (simp add: makeRequest_def unroll at_k)
    show "sleeps (snd (makeRequest fetch url config)) = map (\<lambda>i. 2 ^ i * 1000) [0..<k]"
      by (simp add: makeRequest_def unroll at_k sleeps_append sleeps_prefix sleeps_try_block)
    show "fetches (snd (makeRequest fetch url config)) = k + 1"
      by (simp add: makeRequest_def unroll at_k fetches_append fetches_prefix fetches_try_block)
  }
  {
    assume a: "spec_retryable_error err \<and> of_nat k + 1 < retryAttempts config"
    then have nc: "\<not> client_error err" by (simp add: spec_retryable_error_not_client)
    have "of_nat (Suc k) < retryAttempts config" using a by (simp add: add.commute)
    moreover have "\<forall>i<Suc k. failed_retryably (fst (try_block fetch url i))"
      using before nc assms(3) by (auto simp: less_Suc_eq failed_retryably_def)
    ultimately have unroll': "retry_loop fetch url config 0 None =
           (fst (retry_loop fetch url config (Suc k) None),
            concat (map (\<lambda>i. snd (try_block fetch url i) @ [Sleep (2 ^ i * 1000)]) [0..<Suc k])
              @ snd (retry_loop fetch url config (Suc k) None))"
      by (rule retry_loop_unroll)
    obtain rest where rest: "snd (retry_loop fetch url config (Suc k) None)
        = snd (try_block fetch url (Suc k)) @ rest"
      using retry_loop_starts [of "Suc k" config fetch url None] a
      by (auto simp: add.commute)
    show "fetches (snd (makeRequest fetch url config)) \<ge> k + 2"
      unfolding makeRequest_def unroll' rest
      by (simp add: fetches_append fetches_prefix fetches_try_block del: upt_Suc)
    have "sleeps (snd (makeRequest fetch url config))
        = map (\<lambda>i. 2 ^ i * 1000) [0..<Suc k] @ sleeps rest"
      unfolding makeRequest_def unroll' rest
      by (simp add: sleeps_append sleeps_prefix sleeps_try_block del: upt_Suc)
    then show "take (k + 1) (sleeps (snd (makeRequest fetch url config)))
                = map (\<lambda>i. 2 ^ i * 1000) [0..<k + 1]"
      by simp
  }
qed

text \<open>
  A 500 and then a 404, with three attempts allowed: the 500 is retried after 1000 ms,
  the 404 ends the call with the classifier's error, after two calls and that one sleep.
\<close>

theorem client_error_terminal_witness:
  "of_nat 1 < retryAttempts \<lparr>timeout = 30000, retryAttempts = 3\<rparr>
   \<and> list_all
        (\<lambda>i. failed_retryably
           (fst (try_block (replay [Inr server_error] (Inr not_found)) ''/payments/abc'' i)))
        [0..<1]
   \<and> spec_retryable_error (handleErrorResponse server_error)
   \<and> try_block (replay [Inr server_error] (Inr not_found)) ''/payments/abc'' 0
       = (Inl (handleErrorResponse server_error), [Fetch ''/payments/abc'', ClearTimeout])
   \<and> makeRequest (replay [Inr server_error] (Inr not_found)) ''/payments/abc''
        \<lparr>timeout = 30000, retryAttempts = 3\<rparr>
       = (Inl (SDKError \<lparr>message = ''Payment with ID abc not found'', statusCode = Some 404,
                         code = Some (JStr ''PAYMENT_NOT_FOUND''), details = None,
                         name = ''PaymentNotFoundError''\<rparr>),
          [SetTimeout 30000, Fetch ''/payments/abc'', ClearTimeout, Sleep 1000,
           Fetch ''/payments/abc'', ClearTimeout])"
proof -
  let ?f = "replay [Inr server_error] (Inr not_found)"
  let ?c = "\<lparr>timeout = 30000, retryAttempts = 3\<rparr>"
  let ?e = "\<lparr>message = ''Payment with ID abc not found'', statusCode = Some 404,
             code = Some (JStr ''PAYMENT_NOT_FOUND''), details = None,
             name = ''PaymentNotFoundError''\<rparr>"
  have h0: "of_nat 0 < retryAttempts ?c" and h1: "of_nat 1 < retryAttempts ?c"
    by simp_all
  have p0: "list_all (\<lambda>i. failed_retryably (fst (try_block ?f ''/payments/abc'' i))) [0..<0]"
    by simp
  have p1: "list_all (\<lambda>i. failed_retryably (fst (try_block ?f ''/payments/abc'' i))) [0..<1]"
    by code_simp
  have t0: "try_block ?f ''/payments/abc'' 0
       = (Inl (handleErrorResponse server_error), [Fetch ''/payments/abc'', ClearTimeout])"
    by code_simp
  have t1: "fst (try_block ?f ''/payments/abc'' 1) = Inl (SDKError ?e)"
    by code_simp
  have r0: "spec_retryable_error (handleErrorResponse server_error)"
    by code_simp
  have e0: "fst (try_block ?f ''/payments/abc'' 0) = Inl (handleErrorResponse server_error)"
    using t0 by simp
  from client_error_terminal [OF h0 p0 e0, of ?e 404] r0
  have retried: "fetches (snd (makeRequest ?f ''/payments/abc'' ?c)) \<ge> 2"
    by simp
  from client_error_terminal [OF h1 p1 t1, of ?e 404]
  have ended: "fst (makeRequest ?f ''/payments/abc'' ?c) = Inl (SDKError ?e)"
    and slept: "sleeps (snd (makeRequest ?f ''/payments/abc'' ?c)) = [1000]"
    by simp_all
  have trace: "snd (makeRequest ?f ''/payments/abc'' ?c)
       = [SetTimeout 30000, Fetch ''/payments/abc'', ClearTimeout, Sleep 1000,
          Fetch ''/payments/abc'', ClearTimeout]"
    by code_simp
  from ended trace have "makeRequest ?f ''/payments/abc'' ?c
       = (Inl (SDKError ?e),
          [SetTimeout 30000, Fetch ''/payments/abc'', ClearTimeout, Sleep 1000,
           Fetch ''/payments/abc'', ClearTimeout])"
    by (simp add: prod_eq_iff)
  with h1 p1 r0 t0 show ?thesis by simp
qed

section \<open>The backoff schedule\<close>

text \<open>
  C2, as amended. Let \<^verbatim>\<open>retryAttempts\<close> be a whole number \<open>n\<close>. Whatever the transport
  does, the calls and sleeps of \<^verbatim>\<open>makeRequest\<close> follow the specification's schedule for
  some number of attempts \<open>a\<close> up to \<open>n\<close>: after attempt \<open>i\<close> (counted from 0) and before
  the next one a sleep of \<open>2^i * 1000\<close> ms, so 1000, 2000, 4000, ... in that order, and no
  sleep after the last attempt made. When every attempt fails retryably (a response with
  status 429 or at least 500, or a transport-level failure), all \<open>n\<close> attempts are made.
\<close>

theorem backoff_schedule:
  assumes "retryAttempts config = of_int n"
  shows "(\<exists>a. int a \<le> max 0 n
        \<and> schedule (snd (makeRequest fetch url config)) = spec_backoff_schedule url a)
   \<and> (list_all spec_retryable_failure (map fetch [0..<nat n]) \<longrightarrow>
        schedule (snd (makeRequest fetch url config)) = spec_backoff_schedule url (nat n))"
proof (cases "0 < n")
  case False
  then have "\<not> of_nat 0 < retryAttempts config"
    unfolding assms by simp
  then have "schedule (snd (makeRequest fetch url config)) = []"
    by (simp add: makeRequest_eq retry_loop_exhausted)
  moreover have "nat n = 0" using False by simp
  ultimately show ?thesis
    by (auto simp: spec_backoff_schedule_def intro: exI [of _ 0])
next
  case True
  then have "int 0 < n" by simp
  from retry_loop_schedule [OF assms this, of fetch url None]
  obtain m where m: "int m < n"
    "schedule (snd (retry_loop fetch url config 0 None))
       = concat (map (\<lambda>i. [Fetch url, Sleep (2 ^ i * 1000)]) [0..<m]) @ [Fetch url]"
    by auto
  have first: "\<exists>a. int a \<le> max 0 n
        \<and> schedule (snd (makeRequest fetch url config)) = spec_backoff_schedule url a"
    using m by (intro exI [of _ "Suc m"]) (simp add: makeRequest_eq spec_backoff_schedule_def)
  have second: "schedule (snd (makeRequest fetch url config))
          = spec_backoff_schedule url (nat n)"
    if all: "list_all spec_retryable_failure (map fetch [0..<nat n])"
  proof -
    have "\<forall>i. int i < n \<longrightarrow> failed_retryably (fst (try_block fetch url i))"
      using all by (auto simp: list_all_iff intro!: spec_retryable_failure_failed)
    from retry_loop_all_failed [OF assms True this] show ?thesis
      using True
      by (auto simp: makeRequest_eq spec_backoff_schedule_def schedule_append schedule_prefix
          schedule_try_block)
  qed
  from first second show ?thesis by blast
qed

text \<open>A network failure, a 429 and a 500, with three attempts allowed.\<close>

theorem backoff_schedule_witness:
  "retryAttempts \<lparr>timeout = 30000, retryAttempts = 3\<rparr> = of_int 3
   \<and> list_all spec_retryable_failure
     (map (replay [Inl (JSError ''fetch failed''), Inr too_many_requests] (Inr server_error))
        [0..<nat 3])
   \<and> schedule (snd (makeRequest
        (replay [Inl (JSError ''fetch failed''), Inr too_many_requests] (Inr server_error))
        ''/payments/abc'' \<lparr>timeout = 30000, retryAttempts = 3\<rparr>))
     = [Fetch ''/payments/abc'', Sleep 1000, Fetch ''/payments/abc'', Sleep 2000,
        Fetch ''/payments/abc'']"
proof -
  let ?f = "replay [Inl (JSError ''fetch failed''), Inr too_many_requests] (Inr server_error)"
  let ?c = "\<lparr>timeout = 30000, retryAttempts = 3\<rparr>"
  have whole: "retryAttempts ?c = of_int 3" by simp
  have h: "list_all spec_retryable_failure (map ?f [0..<nat 3])"
    by code_simp
  have "spec_backoff_schedule ''/payments/abc'' (nat 3)
      = [Fetch ''/payments/abc'', Sleep 1000, Fetch ''/payments/abc'', Sleep 2000,
         Fetch ''/payments/abc'']"
    by code_simp
  with backoff_schedule [OF whole, of ?f "''/payments/abc''"] h whole show ?thesis
    by simp
qed

text \<open>
  The claim as stated fails when \<^verbatim>\<open>retryAttempts\<close> is not whole. The constructor accepts
  2.5 and keeps it; with every attempt failing, the loop then runs for the counter values
  0, 1 and 2, three attempts where \<^verbatim>\<open>retryAttempts\<close> is 2.5, and its test for the last
  attempt (2 against 1.5) never holds, so it sleeps 4000 ms after the third attempt and
  only then gives up.
\<close>

theorem backoff_schedule_counterexample:
  "new_KonnectSDK
     \<lparr>KonnectConfig.apiKey = ''test-api-key-12345'', environment = None,
      KonnectConfig.timeout = None, KonnectConfig.retryAttempts = Some (5 / 2)\<rparr>
     = Inr \<lparr>timeout = 30000, retryAttempts = 5 / 2, apiKey = ''test-api-key-12345'',
            baseUrl = ''https://api.sandbox.konnect.network/api/v2''\<rparr>
   \<and> list_all spec_retryable_failure (map (replay [] (Inr server_error)) [0..<3])
   \<and> makeRequest (replay [] (Inr server_error)) ''/payments/abc''
        \<lparr>timeout = 30000, retryAttempts = 5 / 2\<rparr>
     = (Inl (SDKError \<lparr>message = ''boom'', statusCode = None,
                       code = Some (JStr ''REQUEST_FAILED''), details = None,
                       name = ''KonnectSDKError''\<rparr>),
        [SetTimeout 30000, Fetch ''/payments/abc'', ClearTimeout, Sleep 1000,
         Fetch ''/payments/abc'', ClearTimeout, Sleep 2000,
         Fetch ''/payments/abc'', ClearTimeout, Sleep 4000, ClearTimeout])
   \<and> fetches (snd (makeRequest (replay [] (Inr server_error)) ''/payments/abc''
        \<lparr>timeout = 30000, retryAttempts = 5 / 2\<rparr>)) = 3
   \<and> sleeps (snd (makeRequest (replay [] (Inr server_error)) ''/payments/abc''
        \<lparr>timeout = 30000, retryAttempts = 5 / 2\<rparr>)) = [1000, 2000, 4000]"
  by code_simp

section \<open>Three server errors\<close>

text \<open>
  C3, as amended. With \<^verbatim>\<open>retryAttempts = 3\<close> and a 500 on each of the three attempts,
  \<^verbatim>\<open>makeRequest\<close> makes three calls, sleeps 1000 ms and then 2000 ms, and fails with a new
  generic error: its message is the message of the classifier's error for the last
  response (the fixed fallback when that message is empty), it has no status code and no
  details, and its code is \<^verbatim>\<open>REQUEST_FAILED\<close>.
\<close>

theorem three_server_errors:
  assumes "retryAttempts config = 3"
    and "list_all (spec_returns_status 500) (map fetch [0..<3])"
  shows "\<exists>r m. fetch 2 = Inr r \<and> error_message (handleErrorResponse r) = Some (JStr m)
       \<and> fst (makeRequest fetch url config)
           = Inl (SDKError
               \<lparr>message = (if m = [] then ''Request failed after retries'' else m),
                statusCode = None, code = Some (JStr ''REQUEST_FAILED''), details = None,
                name = ''KonnectSDKError''\<rparr>)
       \<and> sleeps (snd (makeRequest fetch url config)) = [1000, 2000]
       \<and> fetches (snd (makeRequest fetch url config)) = 3"
proof -
  have each: "spec_returns_status 500 (fetch i)" if "i < 3" for i
    using assms(2) that by (auto simp: list_all_iff)
  from each [of 2] obtain r where r: "fetch 2 = Inr r" "\<not> ok r" "status r = 500"
    by (cases "fetch 2") (auto simp: spec_returns_status_def)
  obtain m where m: "error_message (handleErrorResponse r) = Some (JStr m)"
    using classifier_has_message by blast
  have "spec_retryable_failure (fetch i)" if "i < 3" for i
    using each [OF that]
    by (cases "fetch i") (auto simp: spec_returns_status_def spec_retryable_failure_def)
  then have "\<forall>i. int i < 3 \<longrightarrow> failed_retryably (fst (try_block fetch url i))"
    by (auto intro!: spec_retryable_failure_failed)
  moreover have "retryAttempts config = of_int 3" using assms(1) by simp
  moreover have "(0::int) < 3" by simp
  ultimately obtain e where e: "fst (try_block fetch url (nat 3 - 1)) = Inl e"
    "retry_loop fetch url config 0 None =
       (Inl (request_failed (Some e)),
        concat (map (\<lambda>i. snd (try_block fetch url i) @ [Sleep (2 ^ i * 1000)])
                 [0..<nat 3 - 1])
        @ snd (try_block fetch url (nat 3 - 1)) @ [ClearTimeout])"
    using retry_loop_all_failed [of config 3 fetch url] by blast
  have two: "nat 3 - 1 = (2::nat)" by simp
  have "fst (try_block fetch url 2) = Inl (handleErrorResponse r)"
    using r by (simp add: try_block_def)
  with e(1) two have e_eq: "e = handleErrorResponse r" by simp
  note loop = e(2) [unfolded two e_eq]
  have backoffs: "map (\<lambda>i. 2 ^ i * 1000) [0..<2] = [1000, 2000 :: int]"
    by (simp add: upt_rec)
  have "fst (makeRequest fetch url config)
           = Inl (SDKError
               \<lparr>message = (if m = [] then ''Request failed after retries'' else m),
                statusCode = None, code = Some (JStr ''REQUEST_FAILED''), details = None,
                name = ''KonnectSDKError''\<rparr>)"
    using m
    by (simp add: makeRequest_eq loop request_failed_def or_else_def new_KonnectSDKError_def)
  moreover have "sleeps (snd (makeRequest fetch url config)) = [1000, 2000]"
    by (simp add: makeRequest_eq loop sleeps_append sleeps_try_block sleeps_prefix backoffs)
  moreover have "fetches (snd (makeRequest fetch url config)) = 3"
    by (simp add: makeRequest_eq loop fetches_append fetches_try_block fetches_prefix)
  ultimately show ?thesis
    using r m by blast
qed

theorem three_server_errors_witness:
  "retryAttempts \<lparr>timeout = 30000, retryAttempts = 3\<rparr> = 3
   \<and> list_all (spec_returns_status 500) (map (replay [] (Inr server_error)) [0..<3])
   \<and> makeRequest (replay [] (Inr server_error)) ''/payments/abc''
        \<lparr>timeout = 30000, retryAttempts = 3\<rparr>
       = (Inl (SDKError \<lparr>message = ''boom'', statusCode = None,
                         code = Some (JStr ''REQUEST_FAILED''), details = None,
                         name = ''KonnectSDKError''\<rparr>),
          [SetTimeout 30000, Fetch ''/payments/abc'', ClearTimeout, Sleep 1000,
           Fetch ''/payments/abc'', ClearTimeout, Sleep 2000,
           Fetch ''/payments/abc'', ClearTimeout, ClearTimeout])"
proof -
  let ?f = "replay [] (Inr server_error)"
  let ?c = "\<lparr>timeout = 30000, retryAttempts = 3\<rparr>"
  have h1: "retryAttempts ?c = 3" by simp
  have h2: "list_all (spec_returns_status 500) (map ?f [0..<3])" by code_simp
  have m: "error_message (handleErrorResponse server_error) = Some (JStr ''boom'')"
    by code_simp
  have f2: "?f 2 = Inr server_error" by (simp add: replay_def)
  from three_server_errors [OF h1 h2, of "''/payments/abc''"] m f2
  have "fst (makeRequest ?f ''/payments/abc'' ?c)
      = Inl (SDKError \<lparr>message = ''boom'', statusCode = None,
                        code = Some (JStr ''REQUEST_FAILED''), details = None,
                        name = ''KonnectSDKError''\<rparr>)"
    by auto
  moreover have "snd (makeRequest ?f ''/payments/abc'' ?c)
      = [SetTimeout 30000, Fetch ''/payments/abc'', ClearTimeout, Sleep 1000,
         Fetch ''/payments/abc'', ClearTimeout, Sleep 2000,
         Fetch ''/payments/abc'', ClearTimeout, ClearTimeout]"
    by code_simp
  ultimately show ?thesis using h2 by (simp add: prod_eq_iff)
qed

text \<open>
  The claim as stated fails: the error of the call is not the classifier's error for the
  last response. Its status code 500 and its code \<^verbatim>\<open>E500\<close> are gone.
\<close>

theorem three_server_errors_counterexample:
  "handleErrorResponse server_error
     = SDKError \<lparr>message = ''boom'', statusCode = Some 500, code = Some (JStr ''E500''),
                 details = Some (JObj [(''message'', JStr ''boom''), (''code'', JStr ''E500'')]),
                 name = ''KonnectSDKError''\<rparr>
   \<and> fst (makeRequest (replay [] (Inr server_error)) ''/payments/abc''
        \<lparr>timeout = 30000, retryAttempts = 3\<rparr>)
     = Inl (SDKError \<lparr>message = ''boom'', statusCode = None,
                      code = Some (JStr ''REQUEST_FAILED''), details = None,
                      name = ''KonnectSDKError''\<rparr>)
   \<and> fst (makeRequest (replay [] (Inr server_error)) ''/payments/abc''
        \<lparr>timeout = 30000, retryAttempts = 3\<rparr>)
     \<noteq> Inl (handleErrorResponse server_error)"
  by code_simp

section \<open>A body that is JSON \<^verbatim>\<open>null\<close>\<close>

text \<open>
  C4. The table of the classifier is what the specification states, and it holds on
  every object body. It does not hold for every body: \<^verbatim>\<open>null\<close> is valid JSON, \<^verbatim>\<open>response.json()\<close>
  resolves to it, and the first property read of the classifier then raises a
  \<^verbatim>\<open>TypeError\<close>. For a 404 the specification asks for the not-found error naming
  \<^verbatim>\<open>unknown\<close> (the field is absent); the code raises an unclassified error, which
  \<^verbatim>\<open>makeRequest\<close> retries: three calls, two sleeps, and a generic failure carrying the
  message of the \<^verbatim>\<open>TypeError\<close>.
\<close>

theorem classifier_null_body:
  "handleErrorResponse \<lparr>ok = False, status = 404, statusText = ''Not Found'', json = Inr JNull\<rparr>
     = JSError (null_read ''paymentId'')
   \<and> makeRequest
       (replay []
          (Inr \<lparr>ok = False, status = 404, statusText = ''Not Found'', json = Inr JNull\<rparr>))
       ''/payments/1'' \<lparr>timeout = 30000, retryAttempts = 3\<rparr>
     = (Inl (SDKError \<lparr>message = null_read ''paymentId'', statusCode = None,
                       code = Some (JStr ''REQUEST_FAILED''), details = None,
                       name = ''KonnectSDKError''\<rparr>),
        [SetTimeout 30000,
         Fetch ''/payments/1'', ClearTimeout, Sleep 1000,
         Fetch ''/payments/1'', ClearTimeout, Sleep 2000,
         Fetch ''/payments/1'', ClearTimeout, ClearTimeout])"
  by code_simp

section \<open>Wrapped operations\<close>

text \<open>
  C5. When the operation fails, \<^verbatim>\<open>wrapResponse\<close> returns the error arm. A
  \<^verbatim>\<open>KonnectSDKError\<close> passes through with its message, status code, code and details
  unchanged. Any other failure gives the code \<^verbatim>\<open>UNKNOWN_ERROR\<close> with the failure's own
  message, or the literal \<^verbatim>\<open>Unknown error\<close> when the failure carries none, that is when
  it is not an \<^verbatim>\<open>Error\<close> (the operations the SDK wraps raise instances of
  \<^verbatim>\<open>Error\<close> only).
\<close>

theorem wrap_failure:
  "wrapResponse (Inl (SDKError e)) =
     Inr \<lparr>data = JNull,
          error = Some \<lparr>message = message e, statusCode = statusCode e, code = code e,
                        details = details e\<rparr>\<rparr>
   \<and> wrapResponse (Inl (JSError m)) =
     Inr \<lparr>data = JNull,
          error = Some \<lparr>message = m, statusCode = None,
                        code = Some (JStr ''UNKNOWN_ERROR''), details = None\<rparr>\<rparr>
   \<and> wrapResponse (Inl (NonError v)) =
     Inr \<lparr>data = JNull,
          error = Some \<lparr>message = ''Unknown error'', statusCode = None,
                        code = Some (JStr ''UNKNOWN_ERROR''), details = None\<rparr>\<rparr>"
  by (simp add: wrapResponse_def toJSON_def)

theorem wrap_failure_witness:
  "wrapResponse (Inl (SDKError (new_ValidationError ''amount must be a positive number'' None))) =
     Inr \<lparr>data = JNull,
          error = Some \<lparr>message = ''amount must be a positive number'', statusCode = Some 400,
                        code = Some (JStr ''VALIDATION_ERROR''), details = None\<rparr>\<rparr>"
  using wrap_failure [of "new_ValidationError ''amount must be a positive number'' None"]
  by (simp add: new_ValidationError_def new_KonnectSDKError_def)

text \<open>
  C6, as amended. \<^verbatim>\<open>wrapResponse\<close> never raises and always returns a response. Its
  \<^verbatim>\<open>error\<close> is null exactly when the operation completed, and then \<^verbatim>\<open>data\<close> is whatever
  the operation resolved to; when the operation failed, \<^verbatim>\<open>data\<close> is null and \<^verbatim>\<open>error\<close> is
  populated. Exactly one arm is populated unless the operation resolved to \<^verbatim>\<open>null\<close>.
\<close>

theorem wrap_one_arm:
  "\<exists>r. wrapResponse fn = Inr r
      \<and> (error r = None \<longleftrightarrow> (\<exists>v. fn = Inr v))
      \<and> (case fn of
           Inr v \<Rightarrow> data r = v
         | Inl e \<Rightarrow> data r = JNull \<and> error r \<noteq> None)
      \<and> (fn \<noteq> Inr JNull \<longrightarrow>
           (data r \<noteq> JNull \<and> error r = None) \<or> (data r = JNull \<and> error r \<noteq> None))"
  by (auto simp: wrapResponse_def split: sum.splits thrown.splits)

theorem wrap_one_arm_witness:
  "Inr (JBool True) \<noteq> (Inr JNull :: thrown + jsval)
   \<and> (\<exists>r. wrapResponse (Inr (JBool True)) = Inr r \<and> data r = JBool True \<and> error r = None)"
  using wrap_one_arm [of "Inr (JBool True)"] by auto

text \<open>
  The claim as stated fails for an operation that resolves to \<^verbatim>\<open>null\<close>: both
  \<^verbatim>\<open>data\<close> and \<^verbatim>\<open>error\<close> are null. A public method gets there on a 2xx response
  whose body is \<^verbatim>\<open>null\<close>.
\<close>

theorem wrap_null_counterexample:
  "wrapResponse (Inr JNull) = Inr \<lparr>data = JNull, error = None\<rparr>
   \<and> getPaymentDetails
        \<lparr>timeout = 30000, retryAttempts = 3, apiKey = ''test-api-key-12345'',
         baseUrl = ''https://api.sandbox.konnect.network/api/v2''\<rparr>
        (replay [] (Inr ok_null)) ''abc''
     = (Inr \<lparr>data = JNull, error = None\<rparr>,
        [SetTimeout 30000,
         Fetch ''https://api.sandbox.konnect.network/api/v2/payments/abc'', ClearTimeout])"
  by code_simp

section \<open>No attempts at all\<close>

text \<open>
  C7. With \<^verbatim>\<open>retryAttempts = 0\<close> the loop body never runs: \<^verbatim>\<open>fetch\<close> is not called (the
  trace holds the arming and the clearing of the timer only), and the call fails with
  the generic error: the fixed message \<^verbatim>\<open>Request failed after retries\<close>, no status code,
  code \<^verbatim>\<open>REQUEST_FAILED\<close>.
\<close>

theorem zero_attempts_no_call:
  "makeRequest fetch url \<lparr>timeout = t, retryAttempts = 0\<rparr> =
     (Inl (SDKError \<lparr>message = ''Request failed after retries'', statusCode = None,
                     code = Some (JStr ''REQUEST_FAILED''), details = None,
                     name = ''KonnectSDKError''\<rparr>),
      [SetTimeout t, ClearTimeout])"
  by (simp add: makeRequest_def retry_loop_exhausted request_failed_def or_else_def
      new_KonnectSDKError_def)

theorem zero_attempts_no_call_witness:
  "makeRequest (replay [] (Inl (JSError ''network down''))) ''https://api/payments''
      \<lparr>timeout = 30000, retryAttempts = 0\<rparr> =
     (Inl (SDKError \<lparr>message = ''Request failed after retries'', statusCode = None,
                     code = Some (JStr ''REQUEST_FAILED''), details = None,
                     name = ''KonnectSDKError''\<rparr>),
      [SetTimeout 30000, ClearTimeout])"
  using zero_attempts_no_call [of "replay [] (Inl (JSError ''network down''))"
      "''https://api/payments''" 30000]
  by simp

section \<open>A body that is not JSON\<close>

text \<open>
  C8, as amended. When \<^verbatim>\<open>response.json()\<close> rejects, the classifier raises no parse
  failure: it classifies with the body \<^verbatim>\<open>{message: statusText}\<close>, which is not empty.
  So 401 gives the authentication error and 404 the \<^verbatim>\<open>unknown\<close> identifier, but 400
  gives the status text as message (\<^verbatim>\<open>Validation failed\<close> only when the status text is
  empty) and the other statuses give the status text as message (the template
  \<^verbatim>\<open>HTTP {status}: \<close> only when the status text is empty), with that body as details.
\<close>

theorem unparseable_body_classified:
  "handleErrorResponse \<lparr>ok = b, status = st, statusText = tx, json = Inl e\<rparr> =
     SDKError
       (if st = 401 then
          \<lparr>message = ''Invalid or missing API key'', statusCode = Some 401,
           code = Some (JStr ''INVALID_AUTH''), details = None, name = ''AuthenticationError''\<rparr>
        else if st = 404 then
          \<lparr>message = ''Payment with ID unknown not found'', statusCode = Some 404,
           code = Some (JStr ''PAYMENT_NOT_FOUND''), details = None,
           name = ''PaymentNotFoundError''\<rparr>
        else if st = 400 then
          \<lparr>message = (if tx = [] then ''Validation failed'' else tx), statusCode = Some 400,
           code = Some (JStr ''VALIDATION_ERROR''),
           details = Some (JObj [(''message'', JStr tx)]), name = ''ValidationError''\<rparr>
        else
          \<lparr>message = (if tx = [] then ''HTTP '' @ number_to_string st @ '': '' else tx),
           statusCode = Some st, code = None,
           details = Some (JObj [(''message'', JStr tx)]), name = ''KonnectSDKError''\<rparr>)"
  by (simp add: handleErrorResponse_def or_else_def new_AuthenticationError_def
      new_PaymentNotFoundError_def new_ValidationError_def new_KonnectSDKError_def)

theorem unparseable_body_classified_witness:
  "handleErrorResponse
     \<lparr>ok = False, status = 503, statusText = ''Service Unavailable'',
      json = Inl (JSError ''Unexpected token < in JSON at position 0'')\<rparr> =
     SDKError
       \<lparr>message = ''Service Unavailable'', statusCode = Some 503, code = None,
        details = Some (JObj [(''message'', JStr ''Service Unavailable'')]),
        name = ''KonnectSDKError''\<rparr>"
  using unparseable_body_classified [of False 503 "''Service Unavailable''"
      "JSError ''Unexpected token < in JSON at position 0''"]
  by simp

text \<open>
  The claim as stated fails on a 400 whose body is HTML: the message is the status text
  \<^verbatim>\<open>Bad Request\<close>, not the fallback \<^verbatim>\<open>Validation failed\<close>.
\<close>

theorem unparseable_400_counterexample:
  "error_message (handleErrorResponse
       \<lparr>ok = False, status = 400, statusText = ''Bad Request'',
        json = Inl (JSError ''Unexpected token < in JSON at position 0'')\<rparr>)
     = Some (JStr ''Bad Request'')
   \<and> error_message (handleErrorResponse
       \<lparr>ok = False, status = 400, statusText = ''Bad Request'',
        json = Inl (JSError ''Unexpected token < in JSON at position 0'')\<rparr>)
     \<noteq> Some (JStr ''Validation failed'')"
  by (simp add: handleErrorResponse_def or_else_def new_ValidationError_def new_KonnectSDKError_def)

section \<open>The deadline timer\<close>

text \<open>
  What holds of the timer: it is armed once, first thing, with \<^verbatim>\<open>config.timeout\<close>; and
  when the transport rejects with nothing but unclassified errors (as \<^verbatim>\<open>fetch\<close> does),
  the last effect of every call is a \<^verbatim>\<open>clearTimeout\<close>.
\<close>

lemma attempts_left:
  "nat \<lceil>retryAttempts config - of_nat k\<rceil> = Suc d \<Longrightarrow> of_nat k < retryAttempts config"
  "nat \<lceil>retryAttempts config - of_nat k\<rceil> = Suc d \<Longrightarrow>
     d = nat \<lceil>retryAttempts config - of_nat (Suc k)\<rceil>"
  "nat \<lceil>retryAttempts config - of_nat k\<rceil> = 0 \<Longrightarrow> \<not> of_nat k < retryAttempts config"
proof -
  have "\<lceil>retryAttempts config - of_nat (Suc k)\<rceil> = \<lceil>retryAttempts config - of_nat k\<rceil> - 1"
    by (simp add: algebra_simps ceiling_diff_one [symmetric])
  then show "nat \<lceil>retryAttempts config - of_nat k\<rceil> = Suc d \<Longrightarrow>
     d = nat \<lceil>retryAttempts config - of_nat (Suc k)\<rceil>"
    by simp
  show "nat \<lceil>retryAttempts config - of_nat k\<rceil> = Suc d \<Longrightarrow> of_nat k < retryAttempts config"
    by (cases "of_nat k < retryAttempts config") (simp_all add: not_less)
  show "nat \<lceil>retryAttempts config - of_nat k\<rceil> = 0 \<Longrightarrow> \<not> of_nat k < retryAttempts config"
    by simp
qed

lemma retry_loop_no_SetTimeout: "SetTimeout t \<notin> set (snd (retry_loop fetch url config k le))"
proof (induction "nat \<lceil>retryAttempts config - of_nat k\<rceil>" arbitrary: k le)
  case 0
  then show ?case by (simp add: retry_loop_exhausted attempts_left(3) [OF 0 [symmetric]])
next
  case (Suc d)
  have k: "of_nat k < retryAttempts config"
    using Suc.hyps(2) [symmetric] by (rule attempts_left(1))
  have tb: "SetTimeout t \<notin> set (snd (try_block fetch url k))"
    using try_block_events [of fetch url k] by auto
  consider (returned) v where "fst (try_block fetch url k) = Inr v"
    | (client) e where "fst (try_block fetch url k) = Inl e" "client_error e"
    | (final) e where "fst (try_block fetch url k) = Inl e" "\<not> client_error e"
        "of_nat k = retryAttempts config - 1"
    | (more) e where "fst (try_block fetch url k) = Inl e" "\<not> client_error e"
        "of_nat k \<noteq> retryAttempts config - 1"
    by (cases "fst (try_block fetch url k)") fastforce+
  then show ?case
  proof cases
    case returned
    with k tb show ?thesis by (simp add: retry_loop_success)
  next
    case client
    with k tb show ?thesis by (simp add: retry_loop_client_error)
  next
    case final
    with tb show ?thesis by (simp add: retry_loop_last)
  next
    case more
    have "d = nat \<lceil>retryAttempts config - of_nat (Suc k)\<rceil>"
      using Suc.hyps(2) [symmetric] by (rule attempts_left(2))
    then have "SetTimeout t \<notin> set (snd (retry_loop fetch url config (Suc k) (Some e)))"
      by (rule Suc.hyps(1))
    with tb show ?thesis
      by (simp add: retry_loop_sleep [OF k more(3) more(1) more(2)])
  qed
qed

lemma timer_armed_once:
  "\<exists>evs. snd (makeRequest fetch url config) = SetTimeout (timeout config) # evs
        \<and> SetTimeout t \<notin> set evs"
  by (simp add: makeRequest_eq retry_loop_no_SetTimeout)

lemma retry_loop_cleared:
  assumes "\<forall>i e. fetch i = Inl e \<longrightarrow> \<not> client_error e"
  shows "\<exists>evs. snd (retry_loop fetch url config k le) = evs @ [ClearTimeout]"
proof (induction "nat \<lceil>retryAttempts config - of_nat k\<rceil>" arbitrary: k le)
  case 0
  then show ?case by (simp add: retry_loop_exhausted attempts_left(3) [OF 0 [symmetric]])
next
  case (Suc d)
  have k: "of_nat k < retryAttempts config"
    using Suc.hyps(2) [symmetric] by (rule attempts_left(1))
  consider (returned) v where "fst (try_block fetch url k) = Inr v"
    | (client) e where "fst (try_block fetch url k) = Inl e" "client_error e"
    | (final) e where "fst (try_block fetch url k) = Inl e" "\<not> client_error e"
        "of_nat k = retryAttempts config - 1"
    | (more) e where "fst (try_block fetch url k) = Inl e" "\<not> client_error e"
        "of_nat k \<noteq> retryAttempts config - 1"
    by (cases "fst (try_block fetch url k)") fastforce+
  then show ?case
  proof cases
    case returned
    then have "snd (try_block fetch url k) = [Fetch url, ClearTimeout]"
      by (auto simp: try_block_def split: sum.splits if_splits)
    with returned k show ?thesis by (simp add: retry_loop_success)
  next
    case client
    then have "snd (try_block fetch url k) = [Fetch url, ClearTimeout]"
      using assms by (auto simp: try_block_def split: sum.splits if_splits)
    with client k show ?thesis by (simp add: retry_loop_client_error)
  next
    case final
    then show ?thesis by (simp add: retry_loop_last)
  next
    case more
    have "d = nat \<lceil>retryAttempts config - of_nat (Suc k)\<rceil>"
      using Suc.hyps(2) [symmetric] by (rule attempts_left(2))
    then obtain evs where
      "snd (retry_loop fetch url config (Suc k) (Some e)) = evs @ [ClearTimeout]"
      using Suc.hyps(1) by blast
    then show ?thesis
      by (simp add: retry_loop_sleep [OF k more(3) more(1) more(2)])
  qed
qed

lemma timer_cleared_on_exit:
  assumes "\<forall>i e. fetch i = Inl e \<longrightarrow> \<not> client_error e"
  shows "last (snd (makeRequest fetch url config)) = ClearTimeout"
  using retry_loop_cleared [OF assms, of url config 0 None]
  by (auto simp: makeRequest_eq)

text \<open>
  What does not hold: the timer is cleared as soon as the first call of \<^verbatim>\<open>fetch\<close>
  resolves, before the response is looked at. When that response is a retryable failure,
  the second call of \<^verbatim>\<open>fetch\<close> is in flight with no timer armed.
\<close>

lemma retry_without_deadline:
  assumes "1 < retryAttempts config"
    and "fetch 0 = Inr r"
    and "failed_retryably (fst (try_block fetch url 0))"
  shows "\<exists>rest. deadline_at_fetch False (snd (makeRequest fetch url config))
           = True # False # rest"
proof -
  from assms(3) obtain e where e: "fst (try_block fetch url 0) = Inl e" "\<not> client_error e"
    by (cases "fst (try_block fetch url 0)") (auto simp: failed_retryably_def)
  have first: "snd (try_block fetch url 0) = [Fetch url, ClearTimeout]"
    using assms(2) by (simp add: try_block_def)
  have "of_nat 0 + 1 < retryAttempts config" using assms(1) by simp
  from retry_loop_step [OF this e, of None None]
  have step: "snd (retry_loop fetch url config 0 None)
      = [Fetch url, ClearTimeout] @ Sleep 1000 # snd (retry_loop fetch url config (Suc 0) None)"
    by (simp add: first)
  obtain rest where rest: "snd (retry_loop fetch url config (Suc 0) None)
      = snd (try_block fetch url (Suc 0)) @ rest"
    using retry_loop_starts [of "Suc 0" config fetch url None] assms(1) by auto
  show ?thesis
    using try_block_events [of fetch url "Suc 0"]
    by (auto simp: makeRequest_eq step rest)
qed

text \<open>
  C9. A 500 on the first attempt, with two attempts allowed and a timeout of 30000 ms:
  the timer is armed once and cleared on exit, but the second call of \<^verbatim>\<open>fetch\<close> runs
  after the \<^verbatim>\<open>clearTimeout\<close> of the first attempt, so the deadline does not cover it.
\<close>

theorem deadline_lost_after_first_response:
  "makeRequest (replay [] (Inr server_error)) ''/payments/abc''
      \<lparr>timeout = 30000, retryAttempts = 2\<rparr>
     = (Inl (SDKError \<lparr>message = ''boom'', statusCode = None,
                       code = Some (JStr ''REQUEST_FAILED''), details = None,
                       name = ''KonnectSDKError''\<rparr>),
        [SetTimeout 30000, Fetch ''/payments/abc'', ClearTimeout, Sleep 1000,
         Fetch ''/payments/abc'', ClearTimeout, ClearTimeout])
   \<and> deadline_at_fetch False
        (snd (makeRequest (replay [] (Inr server_error)) ''/payments/abc''
           \<lparr>timeout = 30000, retryAttempts = 2\<rparr>))
     = [True, False]"
  by code_simp

section \<open>The client never asks for zero attempts\<close>

text \<open>
  C10. A constructed client has at least one attempt configured: a \<^verbatim>\<open>retryAttempts\<close> that
  is undefined or 0 becomes 3, a \<^verbatim>\<open>timeout\<close> that is undefined or 0 becomes 30000, a
  negative value is refused by \<^verbatim>\<open>validateConfig\<close>, and a positive one is kept, so the
  value is positive, and at least 1 when it is whole. So every call of \<^verbatim>\<open>request\<close>,
  through which the public methods reach the API, calls \<^verbatim>\<open>fetch\<close> at least once.
\<close>

theorem sdk_makes_an_attempt:
  assumes "new_KonnectSDK config = Inr sdk"
  shows "(KonnectConfig.retryAttempts config = None \<or> KonnectConfig.retryAttempts config = Some 0
            \<longrightarrow> retryAttempts sdk = 3)
       \<and> (KonnectConfig.timeout config = None \<or> KonnectConfig.timeout config = Some 0
            \<longrightarrow> timeout sdk = 30000)
       \<and> 0 < retryAttempts sdk
       \<and> (retryAttempts sdk \<in> \<int> \<longrightarrow> 1 \<le> retryAttempts sdk)
       \<and> 1 \<le> fetches (snd (request sdk fetch endpoint))
       \<and> (validatePaymentId paymentId = Inr () \<longrightarrow>
            1 \<le> fetches (snd (getPaymentDetails sdk fetch paymentId)))"
proof -
  from assms have valid: "validateConfig config = Inr ()"
    by (cases "validateConfig config") (auto simp: new_KonnectSDK_def)
  with assms have n: "retryAttempts sdk =
      (case KonnectConfig.retryAttempts config of None \<Rightarrow> 3 | Some n \<Rightarrow> if n = 0 then 3 else n)"
    and t: "timeout sdk =
      (case KonnectConfig.timeout config of None \<Rightarrow> 30000 | Some t \<Rightarrow> if t = 0 then 30000 else t)"
    by (auto simp: new_KonnectSDK_def)
  from valid have "case KonnectConfig.retryAttempts config of None \<Rightarrow> True | Some n \<Rightarrow> 0 \<le> n"
    by (auto simp: validateConfig_def split: if_splits option.splits)
  with n have pos: "0 < retryAttempts sdk"
    by (auto split: option.splits)
  have whole: "1 \<le> retryAttempts sdk" if "retryAttempts sdk \<in> \<int>"
  proof -
    from that obtain z where z: "retryAttempts sdk = of_int z" by (rule Ints_cases)
    with pos have "0 < z" by simp
    then have "1 \<le> z" by simp
    then show ?thesis unfolding z by (metis of_int_1 of_int_le_iff)
  qed
  from pos have first:
    "of_nat 0 < retryAttempts \<lparr>timeout = timeout sdk, retryAttempts = retryAttempts sdk\<rparr>"
    by simp
  have called: "1 \<le> fetches (snd (request sdk fetch path))" for path
    using retry_loop_starts [OF first, of fetch "baseUrl sdk @ path" None]
    by (auto simp: request_def makeRequest_eq fetches_append fetches_try_block)
  have "1 \<le> fetches (snd (getPaymentDetails sdk fetch paymentId))"
    if "validatePaymentId paymentId = Inr ()"
    using that called [of "''/payments/'' @ paymentId"]
    by (auto simp: getPaymentDetails_def split: prod.splits)
  with n t pos whole called show ?thesis by auto
qed

theorem sdk_makes_an_attempt_witness:
  "new_KonnectSDK
     \<lparr>KonnectConfig.apiKey = ''test-api-key-12345'', environment = Some sandbox,
      KonnectConfig.timeout = Some 0, KonnectConfig.retryAttempts = Some 0\<rparr>
     = Inr \<lparr>timeout = 30000, retryAttempts = 3, apiKey = ''test-api-key-12345'',
            baseUrl = ''https://api.sandbox.konnect.network/api/v2''\<rparr>
   \<and> retryAttempts
        \<lparr>timeout = 30000, retryAttempts = 3, apiKey = ''test-api-key-12345'',
         baseUrl = ''https://api.sandbox.konnect.network/api/v2''\<rparr> \<in> \<int>
   \<and> 1 \<le> fetches (snd (request
        \<lparr>timeout = 30000, retryAttempts = 3, apiKey = ''test-api-key-12345'',
         baseUrl = ''https://api.sandbox.konnect.network/api/v2''\<rparr>
        (replay [] (Inl (JSError ''fetch failed''))) ''/payments/abc''))
   \<and> validatePaymentId ''abc'' = Inr ()
   \<and> 1 \<le> fetches (snd (getPaymentDetails
        \<lparr>timeout = 30000, retryAttempts = 3, apiKey = ''test-api-key-12345'',
         baseUrl = ''https://api.sandbox.konnect.network/api/v2''\<rparr>
        (replay [] (Inl (JSError ''fetch failed''))) ''abc''))"
proof -
  let ?sdk = "\<lparr>timeout = 30000, retryAttempts = 3, apiKey = ''test-api-key-12345'',
         baseUrl = ''https://api.sandbox.konnect.network/api/v2''\<rparr>"
  have made: "new_KonnectSDK
     \<lparr>KonnectConfig.apiKey = ''test-api-key-12345'', environment = Some sandbox,
      KonnectConfig.timeout = Some 0, KonnectConfig.retryAttempts = Some 0\<rparr> = Inr ?sdk"
    by code_simp
  have valid: "validatePaymentId ''abc'' = Inr ()"
    by code_simp
  have whole: "retryAttempts ?sdk \<in> \<int>"
    by simp
  from sdk_makes_an_attempt [OF made, of _ _ "''abc''"] made valid whole show ?thesis
    by blast
qed

end
